theory Spec2Isabelle
  imports Complex_Main
begin

section \<open>RetriBERT: checkpointed sentence embedding\<close>

text \<open>
  The model follows \<^verbatim>\<open>src/transformers/modeling_retribert.py\<close>. A tensor whose first
  dimension is the batch is the list of its rows along that dimension; Python integers
  are \<^typ>\<open>int\<close>; tensor entries are real numbers (rounding is not modelled). Every
  exception the source can raise is a value of \<open>error\<close>, returned as \<open>Inl\<close>.
\<close>

datatype error =
  ZeroDivisionError      \<comment> \<open>Python's \<^verbatim>\<open>/\<close> with a zero divisor\<close>
| ShapeError             \<comment> \<open>the runtime's exception on operands whose dimensions disagree\<close>
| EmptyListError         \<comment> \<open>\<^verbatim>\<open>torch.cat\<close> of an empty list of tensors\<close>
| TargetOutOfBounds      \<comment> \<open>a class index outside the logits' columns\<close>
| ModuleTypeError        \<comment> \<open>an attribute that does not hold the kind of module it is used as\<close>
| AttributeError         \<comment> \<open>a tensor method read on \<^verbatim>\<open>None\<close>\<close>

type_synonym long_tensor = "int list list"                \<comment> \<open>(batch, seq_len)\<close>
type_synonym mask_tensor = "real list list"               \<comment> \<open>(batch, seq_len)\<close>
type_synonym hidden_tensor = "real list list list"        \<comment> \<open>(batch, seq_len, hidden)\<close>
type_synonym ext_mask_tensor = "real list list list list" \<comment> \<open>(batch, 1, 1, seq_len)\<close>
type_synonym pooled_tensor = "real list list"             \<comment> \<open>(batch, hidden)\<close>
type_synonym head_mask = "real list option list"

text \<open>
  The sentence encoder (\<^verbatim>\<open>BertModel\<close>, defined outside the modelled file) is a
  parameter: the record holds what the source calls on it. \<open>call\<close> is
  \<^verbatim>\<open>sent_encoder(input_ids, attention_mask=attention_mask)\<close>, a tuple whose
  element 1 is the pooled output; \<open>encoder\<close> returns element 0 of the stack's output
  tuple. The \<^verbatim>\<open>device\<close> argument and the arguments the source fixes to
  \<^verbatim>\<open>None\<close> carry no value and are left out.

  \<^verbatim>\<open>attention_mask\<close> is optional: \<^verbatim>\<open>embed_questions\<close> and \<^verbatim>\<open>embed_answers\<close>
  default it to \<^verbatim>\<open>None\<close>. The encoder's call accepts \<^verbatim>\<open>None\<close> (it attends to every
  token then); \<^verbatim>\<open>get_extended_attention_mask\<close> works on a tensor, it reads the
  dimensions of its argument, so that the source's call of it on \<^verbatim>\<open>None\<close> raises.
\<close>

record bert =
  call :: "long_tensor \<Rightarrow> mask_tensor option \<Rightarrow> hidden_tensor \<times> pooled_tensor"
  get_extended_attention_mask :: "mask_tensor \<Rightarrow> nat \<times> nat \<Rightarrow> ext_mask_tensor"
  embeddings :: "long_tensor \<Rightarrow> long_tensor \<Rightarrow> hidden_tensor"
  encoder :: "hidden_tensor \<Rightarrow> ext_mask_tensor \<Rightarrow> head_mask \<Rightarrow> hidden_tensor"
  pooler :: "hidden_tensor \<Rightarrow> pooled_tensor"
  num_hidden_layers :: nat

definition shape0 :: "'a list \<Rightarrow> int" where
  "shape0 x = int (length x)"

text \<open>\<^verbatim>\<open>x.size()\<close> of a two-dimensional tensor; the row length of an empty batch is
  not recorded by the list of rows and reads as 0.\<close>

definition tensor_size :: "'a list list \<Rightarrow> nat \<times> nat" where
  "tensor_size x = (length x, case x of [] \<Rightarrow> 0 | r # _ \<Rightarrow> length r)"

definition torch_zeros :: "nat \<times> nat \<Rightarrow> long_tensor" where
  "torch_zeros shp = replicate (fst shp) (replicate (snd shp) 0)"

text \<open>Python's \<^verbatim>\<open>x[lo:hi]\<close> along the first dimension: a negative bound counts from
  the end, and both bounds are clamped to the length.\<close>

definition slice_bound :: "nat \<Rightarrow> int \<Rightarrow> nat" where
  "slice_bound n i = (if i < 0 then nat (max 0 (int n + i)) else min n (nat i))"

definition slice :: "'a list \<Rightarrow> int \<Rightarrow> int \<Rightarrow> 'a list" where
  "slice x lo hi =
     (let l = slice_bound (length x) lo; h = slice_bound (length x) hi
      in take (h - l) (drop l x))"

definition py_range :: "int \<Rightarrow> int list" where
  "py_range n = [0..n - 1]"

text \<open>\<^verbatim>\<open>a / b\<close> on Python integers is true division and raises on a zero divisor;
  \<^verbatim>\<open>math.ceil\<close> rounds up. The quotient is a real number here: the rounding of the
  float quotient plays no part for batch sizes below \<open>2\<^sup>5\<^sup>3\<close>.\<close>

definition true_div :: "int \<Rightarrow> int \<Rightarrow> error + real" where
  "true_div a b = (if b = 0 then Inl ZeroDivisionError else Inr (real_of_int a / real_of_int b))"

definition math_ceil :: "real \<Rightarrow> int" where
  "math_ceil r = \<lceil>r\<rceil>"

text \<open>\<^verbatim>\<open>checkpoint.checkpoint(f, a, b)\<close> returns \<^verbatim>\<open>f(a, b)\<close>; what it changes is when
  the activations are recomputed, which has no value in this model.\<close>

definition checkpoint :: "('a \<Rightarrow> 'b \<Rightarrow> 'c) \<Rightarrow> 'a \<Rightarrow> 'b \<Rightarrow> 'c" where
  "checkpoint f a b = f a b"

definition torch_cat :: "'a list list \<Rightarrow> error + 'a list" where
  "torch_cat ts = (if ts = [] then Inl EmptyListError else Inr (concat ts))"

definition partial_encode :: "bert \<Rightarrow> head_mask \<Rightarrow> hidden_tensor \<Rightarrow> ext_mask_tensor \<Rightarrow> pooled_tensor" where
  "partial_encode sent_encoder head_mask inputs0 inputs1 =
     (let sequence_output = encoder sent_encoder inputs0 inputs1 head_mask;
          pooled_output = pooler sent_encoder sequence_output
      in pooled_output)"

text \<open>The \<^verbatim>\<open>for b in range(...)\<close> loop, with \<^verbatim>\<open>pooled_output_list\<close> as accumulator.\<close>

primrec encode_loop ::
  "(hidden_tensor \<Rightarrow> ext_mask_tensor \<Rightarrow> pooled_tensor) \<Rightarrow> hidden_tensor \<Rightarrow> ext_mask_tensor \<Rightarrow>
   int \<Rightarrow> int list \<Rightarrow> pooled_tensor list \<Rightarrow> pooled_tensor list" where
  "encode_loop f embedding_output extended_attention_mask c [] pooled_output_list =
     pooled_output_list"
| "encode_loop f embedding_output extended_attention_mask c (b # bs) pooled_output_list =
     (let b_embedding_output = slice embedding_output (b * c) ((b + 1) * c);
          b_attention_mask = slice extended_attention_mask (b * c) ((b + 1) * c);
          pooled_output = checkpoint f b_embedding_output b_attention_mask
      in encode_loop f embedding_output extended_attention_mask c bs
           (pooled_output_list @ [pooled_output]))"

definition embed_sentences_checkpointed ::
  "long_tensor \<Rightarrow> mask_tensor option \<Rightarrow> bert \<Rightarrow> int \<Rightarrow> error + pooled_tensor" where
  "embed_sentences_checkpointed input_ids attention_mask sent_encoder checkpoint_batch_size =
     (if checkpoint_batch_size < 0 \<or> shape0 input_ids < checkpoint_batch_size
      then Inr (snd (call sent_encoder input_ids attention_mask))
      else
        let input_shape = tensor_size input_ids;
            token_type_ids = torch_zeros input_shape;
            head_mask = replicate (num_hidden_layers sent_encoder) None
        in case attention_mask of
             None \<Rightarrow> Inl AttributeError
           | Some mask_tensor \<Rightarrow>
               let extended_attention_mask =
                     get_extended_attention_mask sent_encoder mask_tensor input_shape;
                   embedding_output = embeddings sent_encoder input_ids token_type_ids
               in case true_div (shape0 input_ids) checkpoint_batch_size of
                    Inl e \<Rightarrow> Inl e
                  | Inr q \<Rightarrow>
                      torch_cat (encode_loop (partial_encode sent_encoder head_mask)
                        embedding_output extended_attention_mask checkpoint_batch_size
                        (py_range (math_ceil q)) []))"


text \<open>The sub-batch of the specification: rows \<open>b * c\<close> up to \<open>(b + 1) * c\<close>, cut off
  at the end of the batch; and the number of sub-batches, the quotient rounded up.\<close>

definition sub_batch :: "nat \<Rightarrow> 'a list \<Rightarrow> nat \<Rightarrow> 'a list" where
  "sub_batch c x b = take c (drop (b * c) x)"

definition ceil_div :: "nat \<Rightarrow> nat \<Rightarrow> nat" where
  "ceil_div B c = (B + c - 1) div c"

text \<open>
  What the source relies on when it says that its second branch ``reproduces BERT
  forward pass'': calling the encoder on a mask tensor is embedding lookup (token types
  all zero), the transformer stack under the extended mask with no head mask, and
  pooling; the lookup and the mask extension keep one row per sequence; and stack and
  pooler treat each sequence of the batch on its own, whatever batch it is run with.
  \<^verbatim>\<open>BertModel\<close> itself is not among the modelled files, so this is a hypothesis on
  the parameter, stated once here.
\<close>

definition bert_contract :: "bert \<Rightarrow> bool" where
  "bert_contract enc \<longleftrightarrow>
     (\<forall>ids mask.
        snd (call enc ids (Some mask)) =
          partial_encode enc (replicate (num_hidden_layers enc) None)
            (embeddings enc ids (torch_zeros (tensor_size ids)))
            (get_extended_attention_mask enc mask (tensor_size ids))) \<and>
     (\<forall>ids tt. length (embeddings enc ids tt) = length ids) \<and>
     (\<forall>mask shp. length (get_extended_attention_mask enc mask shp) = length mask) \<and>
     (\<exists>f. \<forall>e x. length e = length x \<longrightarrow>
        partial_encode enc (replicate (num_hidden_layers enc) None) e x = map2 f e x)"

text \<open>A small encoder that meets the contract, for concrete runs: one hidden unit per
  token, the stack keeps the unmasked tokens, the pooler adds them up. Called without a
  mask it keeps every token.\<close>

definition ones_like :: "long_tensor \<Rightarrow> mask_tensor" where
  "ones_like ids = map (\<lambda>r. replicate (length r) 1) ids"

definition toy_call :: "long_tensor \<Rightarrow> mask_tensor \<Rightarrow> hidden_tensor \<times> pooled_tensor" where
  "toy_call ids attention_mask =
     (map2 (\<lambda>r m. map2 (\<lambda>t w. [real_of_int t * w]) r m) ids attention_mask,
      map2 (\<lambda>r m. [sum_list (map2 (\<lambda>t w. real_of_int t * w) r m)]) ids attention_mask)"

definition toy_bert :: bert where
  "toy_bert =
     \<lparr> call = (\<lambda>ids mask.
          toy_call ids (case mask of None \<Rightarrow> ones_like ids | Some m \<Rightarrow> m)),
       get_extended_attention_mask = (\<lambda>mask shp. map (\<lambda>m. [[m]]) mask),
       embeddings = (\<lambda>ids tt. map (map (\<lambda>t. [real_of_int t])) ids),
       encoder = (\<lambda>e x hm. map2 (\<lambda>r m. map2 (\<lambda>h w. map (\<lambda>v. v * w) h) r (concat (concat m))) e x),
       pooler = map (\<lambda>r. [sum_list (concat r)]),
       num_hidden_layers = 1 \<rparr>"

text \<open>An encoder outside the contract. Its call is still lookup, stack and pooler, but
  the pooler gives every sequence the number of sequences it was run with: what a
  sequence is mapped to depends on the batch it is run in, as it does under training-mode
  dropout, whose draws belong to the call.\<close>

definition batch_stat_bert :: bert where
  "batch_stat_bert =
     toy_bert
       \<lparr> call := (\<lambda>ids mask.
            let s = fst (toy_call ids (case mask of None \<Rightarrow> ones_like ids | Some m \<Rightarrow> m))
            in (s, map (\<lambda>r. [real (length s)]) s)),
         pooler := (\<lambda>s. map (\<lambda>r. [real (length s)]) s) \<rparr>"

section \<open>The contrastive scorer\<close>

text \<open>
  A two-dimensional tensor is its shape and its entries. \<^verbatim>\<open>torch.mm\<close>,
  \<^verbatim>\<open>Tensor.t\<close>, \<^verbatim>\<open>torch.arange\<close> and \<^verbatim>\<open>nn.CrossEntropyLoss(reduction="mean")\<close>
  belong to the tensor runtime; they are modelled after its documentation: the matrix
  product rejects operands whose inner dimensions differ, the loss is the negative
  log-likelihood of the log-softmax, rejects a target whose length is not the number of
  rows, and its mean over an empty batch is not a number.
\<close>

record mat =
  nrows :: nat
  ncols :: nat
  entry :: "nat \<Rightarrow> nat \<Rightarrow> real"

datatype scalar = Finite real | NaN

fun scalar_add :: "scalar \<Rightarrow> scalar \<Rightarrow> scalar" where
  "scalar_add (Finite a) (Finite b) = Finite (a + b)"
| "scalar_add _ _ = NaN"

fun scalar_div :: "scalar \<Rightarrow> real \<Rightarrow> scalar" where
  "scalar_div (Finite a) r = Finite (a / r)"
| "scalar_div NaN r = NaN"

definition torch_mm :: "mat \<Rightarrow> mat \<Rightarrow> error + mat" where
  "torch_mm a b =
     (if ncols a \<noteq> nrows b then Inl ShapeError
      else Inr \<lparr> nrows = nrows a, ncols = ncols b,
                 entry = (\<lambda>i j. \<Sum>k<ncols a. entry a i k * entry b k j) \<rparr>)"

definition torch_t :: "mat \<Rightarrow> mat" where
  "torch_t a = \<lparr> nrows = ncols a, ncols = nrows a, entry = (\<lambda>i j. entry a j i) \<rparr>"

definition torch_arange :: "nat \<Rightarrow> nat list" where
  "torch_arange n = [0..<n]"

definition log_softmax :: "mat \<Rightarrow> mat" where
  "log_softmax x = x \<lparr> entry := (\<lambda>n c. entry x n c - ln (\<Sum>c'<ncols x. exp (entry x n c'))) \<rparr>"

definition nll_loss :: "mat \<Rightarrow> nat list \<Rightarrow> error + scalar" where
  "nll_loss logp target =
     (if length target \<noteq> nrows logp then Inl ShapeError
      else if list_ex (\<lambda>t. ncols logp \<le> t) target then Inl TargetOutOfBounds
      else if nrows logp = 0 then Inr NaN
      else Inr (Finite ((\<Sum>n<nrows logp. - entry logp n (target ! n)) / real (nrows logp))))"

definition ce_loss :: "mat \<Rightarrow> nat list \<Rightarrow> error + scalar" where
  "ce_loss input target = nll_loss (log_softmax input) target"

text \<open>The last five lines of \<^verbatim>\<open>forward\<close>: the loss of a batch of query embeddings
  and a batch of document embeddings. Moving the targets to the inputs' device changes no
  value and is left out.\<close>

definition score :: "mat \<Rightarrow> mat \<Rightarrow> error + scalar" where
  "score q_reps a_reps =
     (case torch_mm q_reps (torch_t a_reps) of
        Inl e \<Rightarrow> Inl e
      | Inr compare_scores \<Rightarrow>
          (case ce_loss compare_scores (torch_arange (ncols compare_scores)) of
             Inl e \<Rightarrow> Inl e
           | Inr loss_qa \<Rightarrow>
               (case ce_loss (torch_t compare_scores) (torch_arange (nrows compare_scores)) of
                  Inl e \<Rightarrow> Inl e
                | Inr loss_aq \<Rightarrow>
                    (let loss = scalar_div (scalar_add loss_qa loss_aq) 2 in Inr loss))))"

text \<open>The loss as the specification words it: the similarity matrix, the softmax
  probability of the true label, and the mean of its negative logarithm over the rows,
  the true label of row \<open>i\<close> being \<open>i\<close>.\<close>

definition similarity :: "mat \<Rightarrow> mat \<Rightarrow> nat \<Rightarrow> nat \<Rightarrow> real" where
  "similarity Q D i j = (\<Sum>k<ncols Q. entry Q i k * entry D j k)"

definition softmax_prob :: "nat \<Rightarrow> (nat \<Rightarrow> real) \<Rightarrow> nat \<Rightarrow> real" where
  "softmax_prob B logits t = exp (logits t) / (\<Sum>j<B. exp (logits j))"

definition mean_cross_entropy :: "nat \<Rightarrow> (nat \<Rightarrow> nat \<Rightarrow> real) \<Rightarrow> scalar" where
  "mean_cross_entropy B S =
     (if B = 0 then NaN else Finite ((\<Sum>i<B. - ln (softmax_prob B (S i) i)) / real B))"

definition permute_rows :: "(nat \<Rightarrow> nat) \<Rightarrow> mat \<Rightarrow> mat" where
  "permute_rows p A = A \<lparr> entry := (\<lambda>i j. entry A (p i) j) \<rparr>"

definition of_rows :: "nat \<Rightarrow> real list list \<Rightarrow> mat" where
  "of_rows d rs = \<lparr> nrows = length rs, ncols = d, entry = (\<lambda>i j. rs ! i ! j) \<rparr>"

section \<open>The model and its modules\<close>

text \<open>
  Modules are objects: they live in a heap, and the model's attributes hold their
  addresses, so that changing a module's parameters is an update of the heap that every
  holder of the address sees. \<^verbatim>\<open>nn.Linear(..., bias=False)\<close> is its weight matrix, of
  shape (out features, in features); \<^verbatim>\<open>nn.Dropout\<close> is its probability. The values
  the constructors and \<^verbatim>\<open>init_weights\<close> draw at random are the parameter
  \<open>initial\<close>.
\<close>

type_synonym addr = nat

datatype module = BertModel bert | Dropout real | Linear mat

record heap =
  cells :: "addr \<Rightarrow> module option"
  next_addr :: addr

definition empty_heap :: heap where
  "empty_heap = \<lparr> cells = (\<lambda>a. None), next_addr = 0 \<rparr>"

definition alloc :: "heap \<Rightarrow> module \<Rightarrow> addr \<times> heap" where
  "alloc h m = (next_addr h, \<lparr> cells = (cells h)(next_addr h \<mapsto> m), next_addr = Suc (next_addr h) \<rparr>)"

definition set_module :: "heap \<Rightarrow> addr \<Rightarrow> module \<Rightarrow> heap" where
  "set_module h a m = h \<lparr> cells := (cells h)(a \<mapsto> m) \<rparr>"

record config =
  hidden_size :: nat
  projection_dim :: nat
  share_encoders :: bool
  hidden_dropout_prob :: real

record initial =
  init_bert_query :: bert
  init_bert_doc :: bert
  init_project_query :: "nat \<Rightarrow> nat \<Rightarrow> real"
  init_project_doc :: "nat \<Rightarrow> nat \<Rightarrow> real"

record RetriBertModel =
  self_projection_dim :: nat
  bert_query :: addr
  bert_doc :: "addr option"
  dropout :: addr
  project_query :: addr
  project_doc :: addr

definition nn_Linear :: "nat \<Rightarrow> nat \<Rightarrow> (nat \<Rightarrow> nat \<Rightarrow> real) \<Rightarrow> module" where
  "nn_Linear in_features out_features w =
     Linear \<lparr> nrows = out_features, ncols = in_features, entry = w \<rparr>"

definition RetriBertModel_init :: "config \<Rightarrow> initial \<Rightarrow> RetriBertModel \<times> heap" where
  "RetriBertModel_init config w =
     (let (bq, h1) = alloc empty_heap (BertModel (init_bert_query w));
          (bd, h2) = (if share_encoders config then (None, h1)
                      else (let (a, h) = alloc h1 (BertModel (init_bert_doc w)) in (Some a, h)));
          (dr, h3) = alloc h2 (Dropout (hidden_dropout_prob config));
          (pq, h4) = alloc h3 (nn_Linear (hidden_size config) (projection_dim config)
                                 (init_project_query w));
          (pd, h5) = alloc h4 (nn_Linear (hidden_size config) (projection_dim config)
                                 (init_project_doc w))
      in (\<lparr> self_projection_dim = projection_dim config, bert_query = bq, bert_doc = bd,
             dropout = dr, project_query = pq, project_doc = pd \<rparr>, h5))"

definition get_bert :: "heap \<Rightarrow> addr \<Rightarrow> error + bert" where
  "get_bert h a = (case cells h a of Some (BertModel b) \<Rightarrow> Inr b | _ \<Rightarrow> Inl ModuleTypeError)"

text \<open>Calling a bias-free linear layer: \<open>input \<cdot> weight\<^sup>T\<close>, rejected when a row of the
  input has not as many entries as the layer has input features.\<close>

definition linear :: "mat \<Rightarrow> pooled_tensor \<Rightarrow> error + mat" where
  "linear weight input =
     (if list_ex (\<lambda>r. length r \<noteq> ncols weight) input then Inl ShapeError
      else Inr \<lparr> nrows = length input, ncols = nrows weight,
                 entry = (\<lambda>i j. \<Sum>k<ncols weight. input ! i ! k * entry weight j k) \<rparr>)"

definition call_linear :: "heap \<Rightarrow> addr \<Rightarrow> pooled_tensor \<Rightarrow> error + mat" where
  "call_linear h a input =
     (case cells h a of Some (Linear weight) \<Rightarrow> linear weight input | _ \<Rightarrow> Inl ModuleTypeError)"

definition embed_questions ::
  "heap \<Rightarrow> RetriBertModel \<Rightarrow> long_tensor \<Rightarrow> mask_tensor option \<Rightarrow> int \<Rightarrow> error + mat" where
  "embed_questions h self input_ids attention_mask checkpoint_batch_size =
     (case get_bert h (bert_query self) of
        Inl e \<Rightarrow> Inl e
      | Inr sent_encoder \<Rightarrow>
          (case embed_sentences_checkpointed input_ids attention_mask sent_encoder
                  checkpoint_batch_size of
             Inl e \<Rightarrow> Inl e
           | Inr q_reps \<Rightarrow> call_linear h (project_query self) q_reps))"

definition embed_answers ::
  "heap \<Rightarrow> RetriBertModel \<Rightarrow> long_tensor \<Rightarrow> mask_tensor option \<Rightarrow> int \<Rightarrow> error + mat" where
  "embed_answers h self input_ids attention_mask checkpoint_batch_size =
     (case get_bert h (case bert_doc self of None \<Rightarrow> bert_query self | Some d \<Rightarrow> d) of
        Inl e \<Rightarrow> Inl e
      | Inr sent_encoder \<Rightarrow>
          (case embed_sentences_checkpointed input_ids attention_mask sent_encoder
                  checkpoint_batch_size of
             Inl e \<Rightarrow> Inl e
           | Inr a_reps \<Rightarrow> call_linear h (project_doc self) a_reps))"

definition forward ::
  "heap \<Rightarrow> RetriBertModel \<Rightarrow> long_tensor \<Rightarrow> mask_tensor option \<Rightarrow>
   long_tensor \<Rightarrow> mask_tensor option \<Rightarrow> int \<Rightarrow> error + scalar" where
  "forward h self input_ids_query attention_mask_query input_ids_doc attention_mask_doc
     checkpoint_batch_size =
     (case embed_questions h self input_ids_query attention_mask_query checkpoint_batch_size of
        Inl e \<Rightarrow> Inl e
      | Inr q_reps \<Rightarrow>
          (case embed_answers h self input_ids_doc attention_mask_doc checkpoint_batch_size of
             Inl e \<Rightarrow> Inl e
           | Inr a_reps \<Rightarrow> score q_reps a_reps))"

text \<open>A configuration and initial values for concrete runs.\<close>

definition toy_config :: "bool \<Rightarrow> config" where
  "toy_config share =
     \<lparr> hidden_size = 1, projection_dim = 2, share_encoders = share, hidden_dropout_prob = 1 / 10 \<rparr>"

definition toy_initial :: initial where
  "toy_initial =
     \<lparr> init_bert_query = toy_bert, init_bert_doc = toy_bert \<lparr> pooler := map (\<lambda>r. [0]) \<rparr>,
       init_project_query = (\<lambda>j k. 1), init_project_doc = (\<lambda>j k. 2) \<rparr>"


text \<open>The permutation of \<open>{0, 1}\<close> that exchanges the two indices.\<close>

definition swap01 :: "nat \<Rightarrow> nat" where
  "swap01 i = (if i = 0 then 1 else if i = 1 then 0 else i)"

section \<open>Sub-batches\<close>

lemma encode_loop_map:
  "encode_loop f emb ext c bs acc =
     acc @ map (\<lambda>b. f (slice emb (b * c) ((b + 1) * c)) (slice ext (b * c) ((b + 1) * c))) bs"
  by (induction bs arbitrary: acc) (simp_all add: checkpoint_def)

lemma py_range_int: "py_range (int n) = map int [0..<n]"
proof (induction n)
  case 0
  show ?case by (simp add: py_range_def)
next
  case (Suc n)
  have "[0..int (Suc n) - 1] = [0..int n - 1] @ [int n]"
    using upto_rec2 [of 0 "int n"] by simp
  with Suc show ?case by (simp add: py_range_def)
qed

lemma slice_bound_nat: "slice_bound n (int k) = min n k"
  by (simp add: slice_bound_def)

lemma slice_nat: "slice x (int l) (int h) = take (h - l) (drop l x)"
proof (cases "l \<le> length x")
  case True
  then show ?thesis
    by (cases "h \<le> length x") (simp_all add: slice_def slice_bound_nat min_def)
next
  case False
  then show ?thesis by (simp add: slice_def slice_bound_nat min_def)
qed

lemma slice_sub_batch:
  "slice x (int b * int c) ((int b + 1) * int c) = sub_batch c x b"
proof -
  have "slice x (int (b * c)) (int ((b + 1) * c)) = take ((b + 1) * c - b * c) (drop (b * c) x)"
    by (rule slice_nat)
  then show ?thesis by (simp add: sub_batch_def algebra_simps)
qed

lemma concat_sub_batches: "concat (map (sub_batch c x) [0..<n]) = take (n * c) x"
proof (induction n)
  case 0
  show ?case by simp
next
  case (Suc n)
  have "take (n * c + c) x = take (n * c) x @ take c (drop (n * c) x)"
    by (rule take_add)
  with Suc show ?case by (simp add: sub_batch_def add.commute)
qed

lemma ceil_div_bounds:
  assumes "0 < c"
  shows "B \<le> ceil_div B c * c" and "ceil_div B c * c < B + c"
proof -
  define m where "m = B + c - 1"
  have 1: "m div c * c + m mod c = m" by simp
  have 2: "m mod c < c" using assms by simp
  have 3: "m + 1 = B + c" using assms by (simp add: m_def)
  from 1 2 3 show "B \<le> ceil_div B c * c"
    unfolding ceil_div_def m_def [symmetric] by linarith
  from 1 3 show "ceil_div B c * c < B + c"
    unfolding ceil_div_def m_def [symmetric] by linarith
qed

lemma math_ceil_true_div:
  assumes "0 < c"
  shows "math_ceil (real_of_int (int B) / real_of_int (int c)) = int (ceil_div B c)"
proof -
  have c: "0 < real c" using assms by simp
  have "real B \<le> real (ceil_div B c * c)"
    using ceil_div_bounds(1) [OF assms, of B] of_nat_le_iff by blast
  then have a: "real B / real c \<le> real (ceil_div B c)"
    using c by (simp add: pos_divide_le_eq)
  have "real (ceil_div B c * c) < real (B + c)"
    using ceil_div_bounds(2) [OF assms, of B] of_nat_less_iff by blast
  then have "real (ceil_div B c) * real c - real c < real B" by simp
  then have "(real (ceil_div B c) - 1) * real c < real B" by (simp add: algebra_simps)
  then have b: "real (ceil_div B c) - 1 < real B / real c"
    using c by (simp add: pos_less_divide_eq)
  have "\<lceil>real B / real c\<rceil> = int (ceil_div B c)"
    by (rule ceiling_unique) (use a b in simp_all)
  then show ?thesis by (simp add: math_ceil_def)
qed

lemma ceil_div_pos: "0 < c \<Longrightarrow> 0 < B \<Longrightarrow> 0 < ceil_div B c"
  using ceil_div_bounds(1) [of c B] by (cases "ceil_div B c") simp_all

text \<open>The second branch, unfolded: one call of \<open>partial_encode\<close> per sub-batch.\<close>

lemma checkpointed_branch:
  assumes c: "0 < c" and active: "c \<le> length input_ids"
  shows "embed_sentences_checkpointed input_ids (Some attention_mask) sent_encoder (int c) =
     Inr (concat (map (\<lambda>b.
        partial_encode sent_encoder (replicate (num_hidden_layers sent_encoder) None)
          (sub_batch c (embeddings sent_encoder input_ids (torch_zeros (tensor_size input_ids))) b)
          (sub_batch c (get_extended_attention_mask sent_encoder attention_mask
             (tensor_size input_ids)) b))
        [0..<ceil_div (length input_ids) c]))"
proof -
  define n where "n = ceil_div (length input_ids) c"
  define f where "f = partial_encode sent_encoder (replicate (num_hidden_layers sent_encoder) None)"
  define emb where "emb = embeddings sent_encoder input_ids (torch_zeros (tensor_size input_ids))"
  define ext where
    "ext = get_extended_attention_mask sent_encoder attention_mask (tensor_size input_ids)"
  have "0 < length input_ids" using c active by linarith
  then have pos: "0 < n"
    unfolding n_def using c by (rule ceil_div_pos [rotated])
  have q: "true_div (shape0 input_ids) (int c) =
      Inr (real_of_int (int (length input_ids)) / real_of_int (int c))"
    using c by (simp add: true_div_def shape0_def)
  have r: "py_range (math_ceil (real_of_int (int (length input_ids)) / real_of_int (int c))) =
      map int [0..<n]"
    by (simp only: math_ceil_true_div [OF c] py_range_int n_def)
  have loop: "encode_loop f emb ext (int c) (map int [0..<n]) [] =
      map (\<lambda>b. f (sub_batch c emb b) (sub_batch c ext b)) [0..<n]"
    by (simp add: encode_loop_map o_def slice_sub_batch del: of_nat_mult of_nat_add)
  have ne: "map (\<lambda>b. f (sub_batch c emb b) (sub_batch c ext b)) [0..<n] \<noteq> []"
    using pos by simp
  have guard: "\<not> (int c < 0 \<or> shape0 input_ids < int c)"
    using active by (simp add: shape0_def)
  have "embed_sentences_checkpointed input_ids (Some attention_mask) sent_encoder (int c) =
      torch_cat (encode_loop f emb ext (int c) (map int [0..<n]) [])"
    unfolding embed_sentences_checkpointed_def Let_def
    by (simp only: guard if_False option.case q r sum.case f_def emb_def ext_def)
  also have "\<dots> = Inr (concat (map (\<lambda>b. f (sub_batch c emb b) (sub_batch c ext b)) [0..<n]))"
    unfolding loop torch_cat_def using ne by simp
  finally show ?thesis
    by (simp only: f_def emb_def ext_def n_def)
qed

lemma sub_batch_map2:
  "length e = length x \<Longrightarrow> map2 f (sub_batch c e b) (sub_batch c x b) = sub_batch c (map2 f e x) b"
  by (simp add: sub_batch_def take_map drop_map take_zip drop_zip)

lemma length_sub_batch: "length (sub_batch c x b) = min c (length x - b * c)"
  by (simp add: sub_batch_def min.commute)


lemma sub_batch_full:
  assumes "0 < c" and "b < ceil_div (length x) c - 1"
  shows "length (sub_batch c x b) = c"
proof -
  define n where "n = ceil_div (length x) c"
  have "n * c < length x + c" unfolding n_def using assms(1) by (rule ceil_div_bounds(2))
  moreover have "(b + 2) * c \<le> n * c"
    using assms(2) unfolding n_def [symmetric] by (intro mult_le_mono1) simp
  ultimately have "(b + 1) * c \<le> length x" by (simp add: algebra_simps)
  then show ?thesis by (simp add: length_sub_batch algebra_simps)
qed

lemma sub_batch_last:
  assumes "0 < c" and "0 < length x"
  shows "length (sub_batch c x (ceil_div (length x) c - 1)) =
           length x - (ceil_div (length x) c - 1) * c"
    and "0 < length x - (ceil_div (length x) c - 1) * c"
    and "length x - (ceil_div (length x) c - 1) * c \<le> c"
proof -
  define n where "n = ceil_div (length x) c"
  have pos: "0 < n" unfolding n_def using assms by (rule ceil_div_pos)
  then have n: "n = (n - 1) + 1" by simp
  have "length x \<le> n * c" unfolding n_def using assms(1) by (rule ceil_div_bounds(1))
  then have up: "length x \<le> (n - 1) * c + c" by (subst (asm) n) (simp add: algebra_simps)
  have "n * c < length x + c" unfolding n_def using assms(1) by (rule ceil_div_bounds(2))
  then have lo: "(n - 1) * c + c < length x + c" by (subst (asm) n) (simp add: algebra_simps)
  from up show "length x - (n - 1) * c \<le> c" by simp
  from lo show "0 < length x - (n - 1) * c" by simp
  from up show "length (sub_batch c x (n - 1)) = length x - (n - 1) * c"
    by (simp add: length_sub_batch)
qed

lemma concat_all_sub_batches:
  assumes "0 < c"
  shows "concat (map (sub_batch c x) [0..<ceil_div (length x) c]) = x"
  using ceil_div_bounds(1) [OF assms, of "length x"] by (simp add: concat_sub_batches)

lemma toy_row:
  "sum_list (concat (map2 (\<lambda>h w. map (\<lambda>v. v * w) h) (map (\<lambda>t. [real_of_int t]) r) m)) =
   sum_list (map2 (\<lambda>t w. real_of_int t * w) r m)"
proof (induction r arbitrary: m)
  case Nil
  show ?case by simp
next
  case (Cons t r)
  then show ?case by (cases m) simp_all
qed

lemma toy_bert_contract: "bert_contract toy_bert"
proof -
  have 1: "snd (call toy_bert ids (Some mask)) =
      partial_encode toy_bert (replicate (num_hidden_layers toy_bert) None)
        (embeddings toy_bert ids (torch_zeros (tensor_size ids)))
        (get_extended_attention_mask toy_bert mask (tensor_size ids))" for ids mask
    by (auto simp add: toy_bert_def toy_call_def partial_encode_def zip_map_map toy_row)
  have 2: "\<exists>f. \<forall>e x. length e = length x \<longrightarrow>
      partial_encode toy_bert (replicate (num_hidden_layers toy_bert) None) e x = map2 f e x"
    by (rule exI [of _ "\<lambda>r m. [sum_list (concat (map2 (\<lambda>h w. map (\<lambda>v. v * w) h) r (concat (concat m))))]"])
      (auto simp add: toy_bert_def partial_encode_def)
  have 3: "length (embeddings toy_bert ids tt) = length ids" for ids tt
    by (simp add: toy_bert_def)
  have 4: "length (get_extended_attention_mask toy_bert mask shp) = length mask" for mask shp
    by (simp add: toy_bert_def)
  from 1 2 3 4 show ?thesis unfolding bert_contract_def by blast
qed

lemma single_pass_branch:
  "c < 0 \<or> shape0 input_ids < c \<Longrightarrow>
   embed_sentences_checkpointed input_ids attention_mask sent_encoder c =
     Inr (snd (call sent_encoder input_ids attention_mask))"
  by (simp add: embed_sentences_checkpointed_def)

text \<open>Without a mask the second branch raises, whatever the encoder and the positive or
  zero \<open>checkpoint_batch_size\<close> within the batch.\<close>

lemma checkpointed_branch_no_mask:
  "0 \<le> c \<Longrightarrow> c \<le> shape0 input_ids \<Longrightarrow>
   embed_sentences_checkpointed input_ids None sent_encoder c = Inl AttributeError"
  by (simp add: embed_sentences_checkpointed_def)

section \<open>Claims on checkpointed embedding\<close>

text \<open>
  Claim C1, as amended. For an encoder that meets \<open>bert_contract\<close> (its call is lookup,
  stack and pooler, and these map every sequence independently of the batch it is run
  with), an attention mask given as a tensor with one row per sequence, and a
  \<open>checkpoint_batch_size\<close> strictly between 0 and the batch size,
  \<open>embed_sentences_checkpointed\<close> returns the same pooled output as with any setting
  \<open>c'\<close> that selects the single pass (negative, such as the default \<open>-1\<close>, or above the
  batch size), and that output is the encoder's own pooled output.
\<close>

theorem C1_checkpointing_preserves_pooled_output:
  assumes contract: "bert_contract sent_encoder"
    and aligned: "length attention_mask = length input_ids"
    and active: "0 < checkpoint_batch_size" "checkpoint_batch_size < shape0 input_ids"
    and single: "c' < 0 \<or> shape0 input_ids < c'"
  shows "embed_sentences_checkpointed input_ids (Some attention_mask) sent_encoder checkpoint_batch_size =
           embed_sentences_checkpointed input_ids (Some attention_mask) sent_encoder c' \<and>
         embed_sentences_checkpointed input_ids (Some attention_mask) sent_encoder c' =
           Inr (snd (call sent_encoder input_ids (Some attention_mask)))"
proof -
  define c where "c = nat checkpoint_batch_size"
  define hm :: head_mask where "hm = replicate (num_hidden_layers sent_encoder) None"
  define emb where "emb = embeddings sent_encoder input_ids (torch_zeros (tensor_size input_ids))"
  define ext where
    "ext = get_extended_attention_mask sent_encoder attention_mask (tensor_size input_ids)"
  have c: "0 < c" "c \<le> length input_ids" "checkpoint_batch_size = int c"
    using active by (simp_all add: c_def shape0_def)
  from contract obtain f where
    f: "\<And>e x. length e = length x \<Longrightarrow> partial_encode sent_encoder hm e x = map2 f e x"
    unfolding bert_contract_def hm_def by blast
  from contract have "length emb = length input_ids"
    unfolding bert_contract_def emb_def by blast
  moreover from contract have "length ext = length attention_mask"
    unfolding bert_contract_def ext_def by blast
  ultimately have len: "length emb = length input_ids" "length ext = length input_ids"
    using aligned by simp_all
  from contract have "snd (call sent_encoder input_ids (Some attention_mask)) =
      partial_encode sent_encoder hm emb ext"
    unfolding bert_contract_def hm_def emb_def ext_def by blast
  then have whole: "snd (call sent_encoder input_ids (Some attention_mask)) = map2 f emb ext"
    using f [of emb ext] len by simp
  have piece: "partial_encode sent_encoder hm (sub_batch c emb b) (sub_batch c ext b) =
      sub_batch c (map2 f emb ext) b" for b
  proof -
    have "length (sub_batch c emb b) = length (sub_batch c ext b)"
      by (simp add: length_sub_batch len)
    then show ?thesis using len by (simp add: f sub_batch_map2)
  qed
  have "embed_sentences_checkpointed input_ids (Some attention_mask) sent_encoder (int c) =
      Inr (concat (map (sub_batch c (map2 f emb ext)) [0..<ceil_div (length input_ids) c]))"
    unfolding checkpointed_branch [OF c(1,2)]
    by (simp only: piece hm_def [symmetric] emb_def [symmetric] ext_def [symmetric])
  also have "\<dots> = Inr (map2 f emb ext)"
    using concat_all_sub_batches [OF c(1), of "map2 f emb ext"] len by simp
  finally have left: "embed_sentences_checkpointed input_ids (Some attention_mask) sent_encoder
      checkpoint_batch_size = Inr (snd (call sent_encoder input_ids (Some attention_mask)))"
    by (simp only: c(3) whole)
  have right: "embed_sentences_checkpointed input_ids (Some attention_mask) sent_encoder c' =
      Inr (snd (call sent_encoder input_ids (Some attention_mask)))"
    using single by (simp add: embed_sentences_checkpointed_def)
  from left right show ?thesis by simp
qed

theorem C1_checkpointing_preserves_pooled_output_witness:
  "bert_contract toy_bert \<and>
   embed_sentences_checkpointed [[1, 2], [3, 4], [5, 6]] (Some [[1, 1], [1, 0], [1, 1]]) toy_bert 2 =
     embed_sentences_checkpointed [[1, 2], [3, 4], [5, 6]] (Some [[1, 1], [1, 0], [1, 1]]) toy_bert (- 1) \<and>
   embed_sentences_checkpointed [[1, 2], [3, 4], [5, 6]] (Some [[1, 1], [1, 0], [1, 1]]) toy_bert (- 1) =
     Inr [[3], [3], [11]]"
proof -
  have "embed_sentences_checkpointed [[1, 2], [3, 4], [5, 6]] (Some [[1, 1], [1, 0], [1, 1]]) toy_bert 2 =
     embed_sentences_checkpointed [[1, 2], [3, 4], [5, 6]] (Some [[1, 1], [1, 0], [1, 1]]) toy_bert (- 1) \<and>
   embed_sentences_checkpointed [[1, 2], [3, 4], [5, 6]] (Some [[1, 1], [1, 0], [1, 1]]) toy_bert (- 1) =
     Inr (snd (call toy_bert [[1, 2], [3, 4], [5, 6]] (Some [[1, 1], [1, 0], [1, 1]])))"
    by (rule C1_checkpointing_preserves_pooled_output [OF toy_bert_contract])
      (simp_all add: shape0_def)
  moreover have "snd (call toy_bert [[1, 2], [3, 4], [5, 6]] (Some [[1, 1], [1, 0], [1, 1]])) =
      [[3], [3], [11]]"
    by (simp add: toy_bert_def toy_call_def)
  ultimately show ?thesis using toy_bert_contract by simp
qed

text \<open>
  Claim C1 as stated, for every input and every parameter setting, fails in two ways.
  Without an attention mask (the default of \<^verbatim>\<open>embed_questions\<close> and
  \<^verbatim>\<open>embed_answers\<close>) the single pass returns the pooled output and the checkpointed
  branch raises. And with an encoder whose output for a sequence depends on the batch it
  is run with, the two passes return different pooled outputs.
\<close>

theorem C1_checkpointing_counterexample:
  "embed_sentences_checkpointed [[1, 2], [3, 4], [5, 6]] None toy_bert 2 = Inl AttributeError \<and>
   embed_sentences_checkpointed [[1, 2], [3, 4], [5, 6]] None toy_bert (- 1) =
     Inr [[3], [7], [11]] \<and>
   embed_sentences_checkpointed [[1, 2], [3, 4], [5, 6]] (Some [[1, 1], [1, 0], [1, 1]])
     batch_stat_bert 2 = Inr [[2], [2], [1]] \<and>
   embed_sentences_checkpointed [[1, 2], [3, 4], [5, 6]] (Some [[1, 1], [1, 0], [1, 1]])
     batch_stat_bert (- 1) = Inr [[3], [3], [3]]"
proof -
  have 1: "embed_sentences_checkpointed [[1, 2], [3, 4], [5, 6]] None toy_bert 2 =
      Inl AttributeError"
    by (simp add: embed_sentences_checkpointed_def shape0_def)
  have 2: "embed_sentences_checkpointed [[1, 2], [3, 4], [5, 6]] None toy_bert (- 1) =
      Inr [[3], [7], [11]]"
    by (simp add: embed_sentences_checkpointed_def toy_bert_def toy_call_def ones_like_def)
  have h: "(0::nat) < 2" "(2::nat) \<le> length [[1, 2], [3, 4], [5, 6 :: int]]"
    by simp_all
  have n: "ceil_div (Suc (Suc (Suc 0))) 2 = 2" by (simp add: ceil_div_def)
  have "[0..<2] = [0, 1]" by (simp add: upt_rec)
  then have "embed_sentences_checkpointed [[1, 2], [3, 4], [5, 6]]
      (Some [[1, 1], [1, 0], [1, 1]]) batch_stat_bert (int 2) = Inr [[2], [2], [1]]"
    using checkpointed_branch [OF h, of "[[1, 1], [1, 0], [1, 1]]" batch_stat_bert]
    by (simp add: n sub_batch_def batch_stat_bert_def toy_bert_def partial_encode_def
        torch_zeros_def tensor_size_def)
  then have 3: "embed_sentences_checkpointed [[1, 2], [3, 4], [5, 6]]
      (Some [[1, 1], [1, 0], [1, 1]]) batch_stat_bert 2 = Inr [[2], [2], [1]]"
    by simp
  have 4: "embed_sentences_checkpointed [[1, 2], [3, 4], [5, 6]] (Some [[1, 1], [1, 0], [1, 1]])
      batch_stat_bert (- 1) = Inr [[3], [3], [3]]"
    by (simp add: embed_sentences_checkpointed_def batch_stat_bert_def toy_bert_def toy_call_def)
  from 1 2 3 4 show ?thesis by simp
qed

text \<open>
  Claim C6. With \<open>0 < c \<le> B\<close> (checkpointing active, \<open>B\<close> the batch size) the call
  on a mask tensor succeeds and its result is the concatenation, in index order, of one \<open>partial_encode\<close>
  output per sub-batch \<open>b = 0, \<dots>, n - 1\<close>, where \<open>n = \<lceil>B / c\<rceil>\<close> and sub-batch \<open>b\<close>
  holds rows \<open>b * c\<close> up to \<open>(b + 1) * c\<close>. For every tensor \<open>x\<close> with \<open>B\<close> rows, all
  sub-batches but the last have \<open>c\<close> rows, the last has the remaining
  \<open>B - (n - 1) * c\<close> rows, between 1 and \<open>c\<close>, and the sub-batches put together
  in order are \<open>x\<close>: every row once, none lost, also when \<open>c\<close> does not divide \<open>B\<close>.
\<close>

theorem C6_checkpointed_partition:
  assumes c: "0 < c" and active: "c \<le> length input_ids"
    and x: "length (x :: 'a list) = length input_ids"
  shows "embed_sentences_checkpointed input_ids (Some attention_mask) sent_encoder (int c) =
       Inr (concat (map (\<lambda>b.
         partial_encode sent_encoder (replicate (num_hidden_layers sent_encoder) None)
           (sub_batch c (embeddings sent_encoder input_ids (torch_zeros (tensor_size input_ids))) b)
           (sub_batch c (get_extended_attention_mask sent_encoder attention_mask
              (tensor_size input_ids)) b))
         [0..<ceil_div (length input_ids) c])) \<and>
     int (ceil_div (length input_ids) c) = \<lceil>real (length input_ids) / real c\<rceil> \<and>
     (\<forall>b < ceil_div (length input_ids) c - 1. length (sub_batch c x b) = c) \<and>
     length (sub_batch c x (ceil_div (length input_ids) c - 1)) =
       length input_ids - (ceil_div (length input_ids) c - 1) * c \<and>
     0 < length input_ids - (ceil_div (length input_ids) c - 1) * c \<and>
     length input_ids - (ceil_div (length input_ids) c - 1) * c \<le> c \<and>
     concat (map (sub_batch c x) [0..<ceil_div (length input_ids) c]) = x"
proof -
  have pos: "0 < length x" using c active x by linarith
  have "int (ceil_div (length input_ids) c) = \<lceil>real (length input_ids) / real c\<rceil>"
    using math_ceil_true_div [OF c, of "length input_ids"] by (simp add: math_ceil_def)
  moreover have "\<forall>b < ceil_div (length input_ids) c - 1. length (sub_batch c x b) = c"
    using sub_batch_full [OF c, of _ x] x by simp
  moreover note checkpointed_branch [OF c active, of attention_mask sent_encoder]
    sub_batch_last [OF c pos, unfolded x] concat_all_sub_batches [OF c, of x, unfolded x]
  ultimately show ?thesis by blast
qed

theorem C6_checkpointed_partition_witness:
  "(0::nat) < 2 \<and> (2::nat) \<le> length [[1, 2], [3, 4], [5, 6 :: int]] \<and>
   embed_sentences_checkpointed [[1, 2], [3, 4], [5, 6]] (Some [[1, 1], [1, 0], [1, 1]]) toy_bert (int 2) =
     Inr [[3], [3], [11]] \<and>
   ceil_div 3 2 = 2 \<and>
   sub_batch 2 [[1, 2], [3, 4], [5, 6 :: int]] 0 = [[1, 2], [3, 4]] \<and>
   sub_batch 2 [[1, 2], [3, 4], [5, 6 :: int]] 1 = [[5, 6]]"
proof -
  have h: "(0::nat) < 2" "(2::nat) \<le> length [[1, 2], [3, 4], [5, 6 :: int]]"
    "length [[1, 2], [3, 4], [5, 6 :: int]] = length [[1, 2], [3, 4], [5, 6 :: int]]"
    by simp_all
  have n: "ceil_div 3 2 = 2" by (simp add: ceil_div_def)
  have "[0..<2] = [0, 1]" by (simp add: upt_rec)
  then show ?thesis
    using C6_checkpointed_partition [OF h, of "[[1, 1], [1, 0], [1, 1]]" toy_bert]
    by (simp add: n sub_batch_def toy_bert_def partial_encode_def torch_zeros_def tensor_size_def)
qed

text \<open>
  Claim C3 asks for a single pass whenever \<open>checkpoint_batch_size \<le> 0\<close> or the batch is
  smaller than \<open>checkpoint_batch_size\<close>. The guard of the source tests
  \<open>checkpoint_batch_size < 0\<close>: with \<open>checkpoint_batch_size = 0\<close> the second branch is
  taken and the division by \<open>checkpoint_batch_size\<close> raises \<open>ZeroDivisionError\<close>, for
  every batch, mask tensor and encoder; without a mask the branch raises before it gets
  there. In no case is there a single pass. (For the other settings the claim names,
  \<open>single_pass_branch\<close> above gives the single pass.)
\<close>

theorem C3_zero_checkpoint_batch_size_raises:
  "embed_sentences_checkpointed input_ids (Some attention_mask) sent_encoder 0 =
     Inl ZeroDivisionError \<and>
   embed_sentences_checkpointed input_ids None sent_encoder 0 = Inl AttributeError"
  by (simp add: embed_sentences_checkpointed_def shape0_def true_div_def)

section \<open>The scorer: auxiliary facts\<close>

lemma scalar_add_commute: "scalar_add a b = scalar_add b a"
  by (cases a; cases b) simp_all

lemma sum_exp_pos: "0 < (B::nat) \<Longrightarrow> 0 < (\<Sum>j<B. exp (f j :: real))"
  by (rule sum_pos) auto

lemma cross_entropy_log_softmax:
  assumes "0 < B"
  shows "- ln (softmax_prob B f t) = - (f t - ln (\<Sum>j<B. exp (f j)))"
  using sum_exp_pos [OF assms, of f] by (simp add: softmax_prob_def ln_div)

lemma list_ex_arange: "list_ex (\<lambda>t. B \<le> t) (torch_arange B) = False"
  by (simp add: torch_arange_def list_ex_iff)

text \<open>The runtime's loss on a square matrix of logits with targets \<open>0, \<dots>, B - 1\<close> is the
  mean cross-entropy with the row index as true label.\<close>

lemma ce_loss_arange:
  assumes "nrows X = B" and "ncols X = B"
  shows "ce_loss X (torch_arange B) = Inr (mean_cross_entropy B (entry X))"
proof (cases "B = 0")
  case True
  with assms show ?thesis
    by (simp add: ce_loss_def nll_loss_def log_softmax_def torch_arange_def mean_cross_entropy_def)
next
  case False
  then have B: "0 < B" by simp
  have "(\<Sum>n<B. - entry (log_softmax X) n (torch_arange B ! n)) =
      (\<Sum>i<B. - ln (softmax_prob B (entry X i) i))"
    by (rule sum.cong)
      (simp_all add: log_softmax_def torch_arange_def assms cross_entropy_log_softmax [OF B])
  moreover have "nrows (log_softmax X) = B" "ncols (log_softmax X) = B"
    using assms by (simp_all add: log_softmax_def)
  moreover have "length (torch_arange B) = B" by (simp add: torch_arange_def)
  ultimately show ?thesis
    using False by (simp add: ce_loss_def nll_loss_def list_ex_arange mean_cross_entropy_def)
qed

lemma ce_loss_length:
  "length target \<noteq> nrows X \<Longrightarrow> ce_loss X target = Inl ShapeError"
  by (simp add: ce_loss_def nll_loss_def log_softmax_def)

lemma torch_mm_t:
  "ncols Q = ncols D \<Longrightarrow>
   torch_mm Q (torch_t D) = Inr \<lparr> nrows = nrows Q, ncols = nrows D, entry = similarity Q D \<rparr>"
  by (simp add: torch_mm_def torch_t_def similarity_def fun_eq_iff)

lemma score_value:
  assumes "nrows Q = nrows D" and "ncols Q = ncols D"
  shows "score Q D =
     Inr (scalar_div (scalar_add (mean_cross_entropy (nrows Q) (similarity Q D))
                                 (mean_cross_entropy (nrows Q) (\<lambda>i j. similarity Q D j i))) 2)"
proof -
  define S where "S = \<lparr> nrows = nrows Q, ncols = nrows D, entry = similarity Q D \<rparr>"
  have 1: "ce_loss S (torch_arange (ncols S)) = Inr (mean_cross_entropy (nrows Q) (similarity Q D))"
    using ce_loss_arange [of S "nrows Q"] assms by (simp add: S_def)
  have 2: "ce_loss (torch_t S) (torch_arange (nrows S)) =
      Inr (mean_cross_entropy (nrows Q) (\<lambda>i j. similarity Q D j i))"
    using ce_loss_arange [of "torch_t S" "nrows Q"] assms by (simp add: S_def torch_t_def)
  show ?thesis
    unfolding score_def torch_mm_t [OF assms(2)] S_def [symmetric]
    by (simp add: 1 2)
qed

lemma score_cols_differ: "ncols Q \<noteq> ncols D \<Longrightarrow> score Q D = Inl ShapeError"
  by (simp add: score_def torch_mm_def torch_t_def)

lemma score_rows_differ:
  assumes "nrows Q \<noteq> nrows D"
  shows "score Q D = Inl ShapeError"
proof (cases "ncols Q = ncols D")
  case True
  have "ce_loss \<lparr> nrows = nrows Q, ncols = nrows D, entry = similarity Q D \<rparr>
      (torch_arange (nrows D)) = Inl ShapeError"
    using assms by (intro ce_loss_length) (simp add: torch_arange_def)
  then show ?thesis
    unfolding score_def torch_mm_t [OF True] by simp
next
  case False
  then show ?thesis by (rule score_cols_differ)
qed

lemma similarity_swap:
  "ncols Q = ncols D \<Longrightarrow> similarity D Q = (\<lambda>i j. similarity Q D j i)"
  by (simp add: similarity_def mult.commute fun_eq_iff)

lemma mean_cross_entropy_permute:
  assumes "bij_betw p {..<B} {..<B}"
  shows "mean_cross_entropy B (\<lambda>i j. S (p i) (p j)) = mean_cross_entropy B S"
proof -
  have inner: "(\<Sum>j<B. exp (S i (p j))) = (\<Sum>j<B. exp (S i j))" for i
    using assms by (rule sum.reindex_bij_betw)
  have "(\<Sum>i<B. - ln (softmax_prob B (\<lambda>j. S (p i) (p j)) i)) =
      (\<Sum>i<B. - ln (softmax_prob B (S (p i)) (p i)))"
    by (simp add: softmax_prob_def inner)
  also have "\<dots> = (\<Sum>i<B. - ln (softmax_prob B (S i) i))"
    using assms by (rule sum.reindex_bij_betw [where g = "\<lambda>i. - ln (softmax_prob B (S i) i)"])
  finally show ?thesis by (simp add: mean_cross_entropy_def)
qed

lemma similarity_permute:
  "similarity (permute_rows p Q) (permute_rows p D) = (\<lambda>i j. similarity Q D (p i) (p j))"
  by (simp add: similarity_def permute_rows_def fun_eq_iff)

lemma swap01_bij: "bij_betw swap01 {..<2} {..<2}"
  by (rule bij_betw_byWitness [where f' = swap01]) (auto simp add: swap01_def)

lemma lessThan_2: "{..<2::nat} = {0, 1}"
  by auto

lemma toy_similarity:
  "similarity (of_rows 1 [[1], [0]]) (of_rows 1 [[1], [0]]) = (\<lambda>i j. [[1], [0]] ! i ! 0 * [[1], [0]] ! j ! 0)"
  by (simp add: similarity_def of_rows_def fun_eq_iff)

section \<open>Claims on the scorer\<close>

text \<open>
  Claim C2. For query and document embeddings with the same number of rows (also none)
  and of columns, the loss is the arithmetic mean of two mean cross-entropies: that of the
  rows of \<open>S = Q \<cdot> D\<^sup>T\<close> and that of the rows of \<open>S\<^sup>T\<close>, the true label of a row
  being its index. No error is raised.
\<close>

theorem C2_loss_is_mean_of_directional_losses:
  assumes "nrows Q = nrows D" and "ncols Q = ncols D"
  shows "score Q D =
     Inr (scalar_div (scalar_add (mean_cross_entropy (nrows Q) (similarity Q D))
                                 (mean_cross_entropy (nrows Q) (\<lambda>i j. similarity Q D j i))) 2)"
  using assms by (rule score_value)

theorem C2_loss_is_mean_of_directional_losses_witness:
  "nrows (of_rows 1 [[1], [0]]) = nrows (of_rows 1 [[1], [0]]) \<and>
   ncols (of_rows 1 [[1], [0]]) = ncols (of_rows 1 [[1], [0]]) \<and>
   score (of_rows 1 [[1], [0]]) (of_rows 1 [[1], [0]]) =
     Inr (Finite ((ln (exp 1 + 1) - 1 + ln 2) / 2))"
proof -
  have h: "nrows (of_rows 1 [[1], [0]]) = nrows (of_rows 1 [[1], [0]])"
    "ncols (of_rows 1 [[1], [0]]) = ncols (of_rows 1 [[1], [0]])"
    by simp_all
  have e: "0 < exp (1::real) + 1" by (simp add: add_pos_pos)
  have m: "mean_cross_entropy 2 (\<lambda>i j. [[1], [0]] ! i ! 0 * [[1], [0]] ! j ! 0) =
      Finite ((ln (exp 1 + 1) - 1 + ln 2) / 2)"
    using e by (simp add: mean_cross_entropy_def softmax_prob_def lessThan_2 ln_div)
  have m': "mean_cross_entropy 2 (\<lambda>i j. [[1], [0]] ! j ! 0 * [[1], [0]] ! i ! 0) =
      Finite ((ln (exp 1 + 1) - 1 + ln 2) / 2)"
    using e by (simp add: mean_cross_entropy_def softmax_prob_def lessThan_2 ln_div)
  have n: "nrows (of_rows 1 [[1], [0]]) = 2" by (simp add: of_rows_def)
  have "score (of_rows 1 [[1], [0]]) (of_rows 1 [[1], [0]]) =
      Inr (Finite ((ln (exp 1 + 1) - 1 + ln 2) / 2))"
    unfolding C2_loss_is_mean_of_directional_losses [OF h] n toy_similarity m m'
    by simp
  with h show ?thesis by simp
qed

text \<open>
  Claim C4. Exchanging the query and the document embeddings leaves the result of
  \<open>score\<close> unchanged, whatever the two matrices are: the same loss, or the same error
  when their shapes disagree.
\<close>

theorem C4_score_symmetric: "score Q D = score D Q"
proof (cases "nrows Q = nrows D \<and> ncols Q = ncols D")
  case True
  then have "score D Q =
     Inr (scalar_div (scalar_add (mean_cross_entropy (nrows Q) (\<lambda>i j. similarity Q D j i))
                                 (mean_cross_entropy (nrows Q) (similarity Q D))) 2)"
    using score_value [of D Q] by (simp add: similarity_swap [of Q D])
  then show ?thesis
    using True score_value [of Q D] by (simp add: scalar_add_commute)
next
  case False
  then have "score Q D = Inl ShapeError" "score D Q = Inl ShapeError"
    using score_rows_differ [of Q D] score_cols_differ [of Q D]
      score_rows_differ [of D Q] score_cols_differ [of D Q] by auto
  then show ?thesis by simp
qed

text \<open>
  Claim C5. For matrices \<open>Q\<close> and \<open>D\<close> with \<open>B\<close> rows each and a permutation \<open>p\<close> of
  \<open>{0, \<dots>, B - 1}\<close>, permuting the rows of both by \<open>p\<close> leaves the result of \<open>score\<close>
  unchanged.
\<close>

theorem C5_score_permutation_invariant:
  assumes "bij_betw p {..<B} {..<B}" and "nrows Q = B" and "nrows D = B"
  shows "score (permute_rows p Q) (permute_rows p D) = score Q D"
proof (cases "ncols Q = ncols D")
  case True
  have shape: "nrows (permute_rows p Q) = nrows (permute_rows p D)"
    "ncols (permute_rows p Q) = ncols (permute_rows p D)" "nrows (permute_rows p Q) = B"
    using assms True by (simp_all add: permute_rows_def)
  have t: "mean_cross_entropy B (\<lambda>i j. similarity Q D (p j) (p i)) =
      mean_cross_entropy B (\<lambda>i j. similarity Q D j i)"
    using mean_cross_entropy_permute [OF assms(1), of "\<lambda>i j. similarity Q D j i"] by simp
  show ?thesis
    unfolding score_value [OF shape(1,2)] shape(3)
    using assms True
    by (simp add: score_value similarity_permute mean_cross_entropy_permute [OF assms(1)] t)
next
  case False
  then have "score (permute_rows p Q) (permute_rows p D) = Inl ShapeError"
    by (intro score_cols_differ) (simp add: permute_rows_def)
  with False show ?thesis by (simp add: score_cols_differ)
qed

theorem C5_score_permutation_invariant_witness:
  "bij_betw swap01 {..<2} {..<2} \<and>
   score (permute_rows swap01 (of_rows 1 [[1], [0]])) (permute_rows swap01 (of_rows 1 [[2], [3]])) =
   score (of_rows 1 [[1], [0]]) (of_rows 1 [[2], [3]])"
  using C5_score_permutation_invariant [OF swap01_bij, of "of_rows 1 [[1], [0]]" "of_rows 1 [[2], [3]]"]
    swap01_bij
  by (simp add: of_rows_def)

text \<open>
  Claim C7, as amended. \<open>score\<close> has no shape check of its own; the runtime's
  operations raise for it. It fails with a shape error whenever the row counts or the
  column counts of the two matrices disagree (so also when exactly one of them has no
  rows) and returns a value otherwise; when both have no rows and the same number of
  columns that value is not a number, the mean over an empty batch.
\<close>

theorem C7_score_shape_errors:
  "(ncols Q \<noteq> ncols D \<or> nrows Q \<noteq> nrows D \<longrightarrow> score Q D = Inl ShapeError) \<and>
   (ncols Q = ncols D \<and> nrows Q = nrows D \<longrightarrow> (\<exists>v. score Q D = Inr v)) \<and>
   (nrows Q = 0 \<and> nrows D = 0 \<and> ncols Q = ncols D \<longrightarrow> score Q D = Inr NaN)"
  using score_rows_differ [of Q D] score_cols_differ [of Q D] score_value [of Q D]
  by (auto simp add: mean_cross_entropy_def)

theorem C7_score_shape_errors_witness:
  "nrows (of_rows 1 [[1], [0]]) \<noteq> nrows (of_rows 1 [[2], [3], [4]]) \<and>
   score (of_rows 1 [[1], [0]]) (of_rows 1 [[2], [3], [4]]) = Inl ShapeError \<and>
   ncols (of_rows 1 [[1], [0]]) \<noteq> ncols (of_rows 2 [[2, 1], [3, 1]]) \<and>
   score (of_rows 1 [[1], [0]]) (of_rows 2 [[2, 1], [3, 1]]) = Inl ShapeError \<and>
   score (of_rows 1 []) (of_rows 1 []) = Inr NaN"
  using C7_score_shape_errors [of "of_rows 1 [[1], [0]]" "of_rows 1 [[2], [3], [4]]"]
    C7_score_shape_errors [of "of_rows 1 [[1], [0]]" "of_rows 2 [[2, 1], [3, 1]]"]
    C7_score_shape_errors [of "of_rows 1 []" "of_rows 1 []"]
  by (simp add: of_rows_def)

text \<open>
  Claim C7 as stated fails where both matrices have zero rows: no error is raised.
\<close>

theorem C7_zero_rows_counterexample:
  "score (of_rows 1 []) (of_rows 1 []) = Inr NaN"
  by (simp add: score_def torch_mm_def torch_t_def ce_loss_def nll_loss_def log_softmax_def
      torch_arange_def of_rows_def)

section \<open>The constructed model\<close>

text \<open>What the constructor builds: which address every attribute holds and which module
  sits there.\<close>

lemma init_shared:
  assumes "share_encoders config"
  shows "RetriBertModel_init config w =
    (\<lparr> self_projection_dim = projection_dim config, bert_query = 0, bert_doc = None,
        dropout = 1, project_query = 2, project_doc = 3 \<rparr>,
     \<lparr> cells = ((((\<lambda>a. None)(0 \<mapsto> BertModel (init_bert_query w)))
          (1 \<mapsto> Dropout (hidden_dropout_prob config)))
          (2 \<mapsto> nn_Linear (hidden_size config) (projection_dim config) (init_project_query w)))
          (3 \<mapsto> nn_Linear (hidden_size config) (projection_dim config) (init_project_doc w)),
        next_addr = 4 \<rparr>)"
  using assms
  by (simp add: RetriBertModel_init_def alloc_def empty_heap_def Let_def eval_nat_numeral)

lemma init_independent:
  assumes "\<not> share_encoders config"
  shows "RetriBertModel_init config w =
    (\<lparr> self_projection_dim = projection_dim config, bert_query = 0, bert_doc = Some 1,
        dropout = 2, project_query = 3, project_doc = 4 \<rparr>,
     \<lparr> cells = (((((\<lambda>a. None)(0 \<mapsto> BertModel (init_bert_query w)))
          (1 \<mapsto> BertModel (init_bert_doc w)))
          (2 \<mapsto> Dropout (hidden_dropout_prob config)))
          (3 \<mapsto> nn_Linear (hidden_size config) (projection_dim config) (init_project_query w)))
          (4 \<mapsto> nn_Linear (hidden_size config) (projection_dim config) (init_project_doc w)),
        next_addr = 5 \<rparr>)"
  using assms
  by (simp add: RetriBertModel_init_def alloc_def empty_heap_def Let_def eval_nat_numeral)

lemma get_bert_set_module_same: "get_bert (set_module h a (BertModel e)) a = Inr e"
  by (simp add: get_bert_def set_module_def)

lemma get_bert_set_module_other: "a \<noteq> a' \<Longrightarrow> get_bert (set_module h a' m) a = get_bert h a"
  by (simp add: get_bert_def set_module_def)

lemma call_linear_set_module_other:
  "a \<noteq> a' \<Longrightarrow> call_linear (set_module h a' m) a x = call_linear h a x"
  by (simp add: call_linear_def set_module_def)

lemma init_cases:
  assumes "RetriBertModel_init config w = (self, h)"
  obtains
    (shared) "share_encoders config"
      "self = \<lparr> self_projection_dim = projection_dim config, bert_query = 0, bert_doc = None,
          dropout = 1, project_query = 2, project_doc = 3 \<rparr>"
      "cells h 0 = Some (BertModel (init_bert_query w))"
      "cells h 2 = Some (nn_Linear (hidden_size config) (projection_dim config)
          (init_project_query w))"
      "cells h 3 = Some (nn_Linear (hidden_size config) (projection_dim config)
          (init_project_doc w))"
  | (independent) "\<not> share_encoders config"
      "self = \<lparr> self_projection_dim = projection_dim config, bert_query = 0, bert_doc = Some 1,
          dropout = 2, project_query = 3, project_doc = 4 \<rparr>"
      "cells h 0 = Some (BertModel (init_bert_query w))"
      "cells h 1 = Some (BertModel (init_bert_doc w))"
      "cells h 3 = Some (nn_Linear (hidden_size config) (projection_dim config)
          (init_project_query w))"
      "cells h 4 = Some (nn_Linear (hidden_size config) (projection_dim config)
          (init_project_doc w))"
proof (cases "share_encoders config")
  case True
  from assms [unfolded init_shared [OF True]] have
    s: "self = \<lparr> self_projection_dim = projection_dim config, bert_query = 0, bert_doc = None,
          dropout = 1, project_query = 2, project_doc = 3 \<rparr>"
    and h: "h = \<lparr> cells = ((((\<lambda>a. None)(0 \<mapsto> BertModel (init_bert_query w)))
          (1 \<mapsto> Dropout (hidden_dropout_prob config)))
          (2 \<mapsto> nn_Linear (hidden_size config) (projection_dim config) (init_project_query w)))
          (3 \<mapsto> nn_Linear (hidden_size config) (projection_dim config) (init_project_doc w)),
        next_addr = 4 \<rparr>"
    by simp_all
  have c: "cells h 0 = Some (BertModel (init_bert_query w))"
    "cells h 2 = Some (nn_Linear (hidden_size config) (projection_dim config)
          (init_project_query w))"
    "cells h 3 = Some (nn_Linear (hidden_size config) (projection_dim config)
          (init_project_doc w))"
    by (simp_all add: h)
  from True s c show ?thesis by (rule shared)
next
  case False
  from assms [unfolded init_independent [OF False]] have
    s: "self = \<lparr> self_projection_dim = projection_dim config, bert_query = 0, bert_doc = Some 1,
          dropout = 2, project_query = 3, project_doc = 4 \<rparr>"
    and h: "h = \<lparr> cells = (((((\<lambda>a. None)(0 \<mapsto> BertModel (init_bert_query w)))
          (1 \<mapsto> BertModel (init_bert_doc w)))
          (2 \<mapsto> Dropout (hidden_dropout_prob config)))
          (3 \<mapsto> nn_Linear (hidden_size config) (projection_dim config) (init_project_query w)))
          (4 \<mapsto> nn_Linear (hidden_size config) (projection_dim config) (init_project_doc w)),
        next_addr = 5 \<rparr>"
    by simp_all
  have c: "cells h 0 = Some (BertModel (init_bert_query w))"
    "cells h 1 = Some (BertModel (init_bert_doc w))"
    "cells h 3 = Some (nn_Linear (hidden_size config) (projection_dim config)
          (init_project_query w))"
    "cells h 4 = Some (nn_Linear (hidden_size config) (projection_dim config)
          (init_project_doc w))"
    by (simp_all add: h)
  from False s c show ?thesis by (rule independent)
qed

text \<open>What the constructed model computes, read off the heap the constructor built.\<close>

lemma init_layout:
  assumes "RetriBertModel_init config w = (self, h)"
  shows "get_bert h (bert_query self) = Inr (init_bert_query w)"
    and "get_bert h (case bert_doc self of None \<Rightarrow> bert_query self | Some d \<Rightarrow> d) =
           Inr (if share_encoders config then init_bert_query w else init_bert_doc w)"
    and "call_linear h (project_query self) x =
           linear \<lparr> nrows = projection_dim config, ncols = hidden_size config,
                    entry = init_project_query w \<rparr> x"
    and "call_linear h (project_doc self) x =
           linear \<lparr> nrows = projection_dim config, ncols = hidden_size config,
                    entry = init_project_doc w \<rparr> x"
    and "bert_doc self = None \<longleftrightarrow> share_encoders config"
  using assms
  by (cases rule: init_cases; simp add: get_bert_def call_linear_def nn_Linear_def)+

lemma init_distinct:
  assumes "RetriBertModel_init config w = (self, h)"
  shows "project_query self \<noteq> project_doc self"
    and "bert_query self \<noteq> dropout self"
    and "bert_query self \<noteq> project_query self"
    and "bert_query self \<noteq> project_doc self"
    and "dropout self \<noteq> project_query self"
    and "dropout self \<noteq> project_doc self"
    and "(case bert_doc self of None \<Rightarrow> bert_query self | Some d \<Rightarrow> d) \<noteq> dropout self"
    and "(case bert_doc self of None \<Rightarrow> bert_query self | Some d \<Rightarrow> d) \<noteq> project_query self"
    and "(case bert_doc self of None \<Rightarrow> bert_query self | Some d \<Rightarrow> d) \<noteq> project_doc self"
    and "\<not> share_encoders config \<Longrightarrow>
           (case bert_doc self of None \<Rightarrow> bert_query self | Some d \<Rightarrow> d) \<noteq> bert_query self"
  using assms
  by (cases rule: init_cases; simp)+

lemma independent_encoders_not_aliased:
  assumes "\<not> share_encoders config" and "RetriBertModel_init config w = (self, h)"
  shows "embed_answers (set_module h (bert_query self) m) self input_ids attention_mask c =
         embed_answers h self input_ids attention_mask c"
  unfolding embed_answers_def
  using init_distinct(4,10) [OF assms(2)] assms(1)
  by (simp add: get_bert_set_module_other call_linear_set_module_other cong: sum.case_cong)

lemma toy_init_eq:
  "RetriBertModel_init (toy_config s) toy_initial =
     (fst (RetriBertModel_init (toy_config s) toy_initial),
      snd (RetriBertModel_init (toy_config s) toy_initial))"
  by simp

section \<open>Claims on the model\<close>

text \<open>
  Claim C8. In a model constructed with \<open>share_encoders\<close> the document role has no
  encoder of its own (\<open>bert_doc\<close> is \<open>None\<close>): after any change \<open>e'\<close> of the module
  that \<open>bert_query\<close> refers to, \<open>embed_answers\<close> embeds with \<open>e'\<close>, as it embedded with
  the query encoder before the change.
\<close>

theorem C8_shared_encoder_aliased:
  assumes "share_encoders config" and "RetriBertModel_init config w = (self, h)"
  shows "bert_doc self = None \<and>
     embed_answers (set_module h (bert_query self) (BertModel e')) self input_ids attention_mask c =
       (case embed_sentences_checkpointed input_ids attention_mask e' c of
          Inl e \<Rightarrow> Inl e
        | Inr a_reps \<Rightarrow>
            linear \<lparr> nrows = projection_dim config, ncols = hidden_size config,
                     entry = init_project_doc w \<rparr> a_reps) \<and>
     embed_answers h self input_ids attention_mask c =
       (case embed_sentences_checkpointed input_ids attention_mask (init_bert_query w) c of
          Inl e \<Rightarrow> Inl e
        | Inr a_reps \<Rightarrow>
            linear \<lparr> nrows = projection_dim config, ncols = hidden_size config,
                     entry = init_project_doc w \<rparr> a_reps)"
proof -
  have none: "bert_doc self = None"
    using init_layout(5) [OF assms(2)] assms(1) by simp
  have after: "embed_answers (set_module h (bert_query self) (BertModel e')) self
      input_ids attention_mask c =
       (case embed_sentences_checkpointed input_ids attention_mask e' c of
          Inl e \<Rightarrow> Inl e
        | Inr a_reps \<Rightarrow>
            linear \<lparr> nrows = projection_dim config, ncols = hidden_size config,
                     entry = init_project_doc w \<rparr> a_reps)"
    unfolding embed_answers_def none
    using init_distinct(4) [OF assms(2)]
    by (simp add: get_bert_set_module_same call_linear_set_module_other
        init_layout(4) [OF assms(2)] cong: sum.case_cong)
  have before: "embed_answers h self input_ids attention_mask c =
       (case embed_sentences_checkpointed input_ids attention_mask (init_bert_query w) c of
          Inl e \<Rightarrow> Inl e
        | Inr a_reps \<Rightarrow>
            linear \<lparr> nrows = projection_dim config, ncols = hidden_size config,
                     entry = init_project_doc w \<rparr> a_reps)"
    unfolding embed_answers_def
    using assms(1)
    by (simp add: init_layout(2,4) [OF assms(2)] cong: sum.case_cong)
  from none after before show ?thesis by simp
qed

theorem C8_shared_encoder_aliased_witness:
  "share_encoders (toy_config True) \<and>
   bert_doc (fst (RetriBertModel_init (toy_config True) toy_initial)) = None \<and>
   map_sum id (\<lambda>m. (nrows m, ncols m, entry m 0 0, entry m 0 1))
     (embed_answers (snd (RetriBertModel_init (toy_config True) toy_initial))
        (fst (RetriBertModel_init (toy_config True) toy_initial)) [[1, 2]] (Some [[1, 1]]) (- 1)) =
     Inr (1, 2, 6, 6) \<and>
   map_sum id (\<lambda>m. (nrows m, ncols m, entry m 0 0, entry m 0 1))
     (embed_answers
        (set_module (snd (RetriBertModel_init (toy_config True) toy_initial))
           (bert_query (fst (RetriBertModel_init (toy_config True) toy_initial)))
           (BertModel (toy_bert \<lparr> call := (\<lambda>ids mask. ([], map (\<lambda>r. [7]) ids)) \<rparr>)))
        (fst (RetriBertModel_init (toy_config True) toy_initial)) [[1, 2]] (Some [[1, 1]]) (- 1)) =
     Inr (1, 2, 14, 14)"
proof -
  have s: "share_encoders (toy_config True)" by (simp add: toy_config_def)
  show ?thesis
    using C8_shared_encoder_aliased [OF s toy_init_eq,
        of "toy_bert \<lparr> call := (\<lambda>ids mask. ([], map (\<lambda>r. [7]) ids)) \<rparr>" "[[1, 2]]" "Some [[1, 1]]" "- 1"]
    by (simp add: s embed_sentences_checkpointed_def toy_bert_def toy_call_def toy_initial_def
        toy_config_def linear_def)
qed

text \<open>
  Claim C9. Sharing or not, the constructor builds two distinct linear layers.
  \<open>embed_questions\<close> applies the weight of \<open>project_query\<close> and \<open>embed_answers\<close> that
  of \<open>project_doc\<close>, each as a product with the weight and nothing added; replacing
  one layer changes nothing in what the other role returns.
\<close>

theorem C9_projections_independent:
  assumes "RetriBertModel_init config w = (self, h)"
  shows "project_query self \<noteq> project_doc self \<and>
     embed_questions (set_module h (project_doc self) m) self input_ids attention_mask c =
       embed_questions h self input_ids attention_mask c \<and>
     embed_answers (set_module h (project_query self) m) self input_ids attention_mask c =
       embed_answers h self input_ids attention_mask c \<and>
     embed_questions h self input_ids attention_mask c =
       (case embed_sentences_checkpointed input_ids attention_mask (init_bert_query w) c of
          Inl e \<Rightarrow> Inl e
        | Inr q_reps \<Rightarrow>
            linear \<lparr> nrows = projection_dim config, ncols = hidden_size config,
                     entry = init_project_query w \<rparr> q_reps) \<and>
     embed_answers h self input_ids attention_mask c =
       (case embed_sentences_checkpointed input_ids attention_mask
               (if share_encoders config then init_bert_query w else init_bert_doc w) c of
          Inl e \<Rightarrow> Inl e
        | Inr a_reps \<Rightarrow>
            linear \<lparr> nrows = projection_dim config, ncols = hidden_size config,
                     entry = init_project_doc w \<rparr> a_reps)"
proof -
  note d = init_distinct [OF assms]
  have 1: "embed_questions (set_module h (project_doc self) m) self input_ids attention_mask c =
       embed_questions h self input_ids attention_mask c"
    unfolding embed_questions_def using d(1,4)
    by (simp add: get_bert_set_module_other call_linear_set_module_other cong: sum.case_cong)
  have 2: "embed_answers (set_module h (project_query self) m) self input_ids attention_mask c =
       embed_answers h self input_ids attention_mask c"
    unfolding embed_answers_def using d(1,8)
    by (simp add: get_bert_set_module_other call_linear_set_module_other cong: sum.case_cong)
  have 3: "embed_questions h self input_ids attention_mask c =
       (case embed_sentences_checkpointed input_ids attention_mask (init_bert_query w) c of
          Inl e \<Rightarrow> Inl e
        | Inr q_reps \<Rightarrow>
            linear \<lparr> nrows = projection_dim config, ncols = hidden_size config,
                     entry = init_project_query w \<rparr> q_reps)"
    unfolding embed_questions_def
    by (simp add: init_layout(1,3) [OF assms] cong: sum.case_cong)
  have 4: "embed_answers h self input_ids attention_mask c =
       (case embed_sentences_checkpointed input_ids attention_mask
               (if share_encoders config then init_bert_query w else init_bert_doc w) c of
          Inl e \<Rightarrow> Inl e
        | Inr a_reps \<Rightarrow>
            linear \<lparr> nrows = projection_dim config, ncols = hidden_size config,
                     entry = init_project_doc w \<rparr> a_reps)"
    unfolding embed_answers_def
    by (simp add: init_layout(2,4) [OF assms] cong: sum.case_cong)
  from d(1) 1 2 3 4 show ?thesis by (intro conjI)
qed

theorem C9_projections_independent_witness:
  "project_query (fst (RetriBertModel_init (toy_config True) toy_initial)) \<noteq>
   project_doc (fst (RetriBertModel_init (toy_config True) toy_initial)) \<and>
   embed_questions
     (set_module (snd (RetriBertModel_init (toy_config True) toy_initial))
        (project_doc (fst (RetriBertModel_init (toy_config True) toy_initial)))
        (nn_Linear 1 2 (\<lambda>j k. 5)))
     (fst (RetriBertModel_init (toy_config True) toy_initial)) [[1, 2]] (Some [[1, 1]]) (- 1) =
   embed_questions (snd (RetriBertModel_init (toy_config True) toy_initial))
     (fst (RetriBertModel_init (toy_config True) toy_initial)) [[1, 2]] (Some [[1, 1]]) (- 1) \<and>
   embed_answers
     (set_module (snd (RetriBertModel_init (toy_config True) toy_initial))
        (project_query (fst (RetriBertModel_init (toy_config True) toy_initial)))
        (nn_Linear 1 2 (\<lambda>j k. 5)))
     (fst (RetriBertModel_init (toy_config True) toy_initial)) [[1, 2]] (Some [[1, 1]]) (- 1) =
   embed_answers (snd (RetriBertModel_init (toy_config True) toy_initial))
     (fst (RetriBertModel_init (toy_config True) toy_initial)) [[1, 2]] (Some [[1, 1]]) (- 1)"
  using C9_projections_independent [OF toy_init_eq, of True "nn_Linear 1 2 (\<lambda>j k. 5)"
      "[[1, 2]]" "Some [[1, 1]]" "- 1"]
  by simp

text \<open>
  Claim C10. Whatever module \<open>m\<close> replaces the model's dropout layer (the identity,
  \<open>Dropout 0\<close>, among them), \<open>embed_questions\<close>, \<open>embed_answers\<close> and \<open>forward\<close>
  return what they returned before: the layer is applied nowhere.
\<close>

theorem C10_dropout_unused:
  assumes "RetriBertModel_init config w = (self, h)"
  shows "embed_questions (set_module h (dropout self) m) self input_ids attention_mask c =
       embed_questions h self input_ids attention_mask c \<and>
     embed_answers (set_module h (dropout self) m) self input_ids attention_mask c =
       embed_answers h self input_ids attention_mask c \<and>
     forward (set_module h (dropout self) m) self input_ids_query attention_mask_query
         input_ids_doc attention_mask_doc c =
       forward h self input_ids_query attention_mask_query input_ids_doc attention_mask_doc c"
proof -
  note d = init_distinct [OF assms]
  have q: "embed_questions (set_module h (dropout self) m) self i a k =
       embed_questions h self i a k" for i a k
    unfolding embed_questions_def using d(2,5)
    by (simp add: get_bert_set_module_other call_linear_set_module_other cong: sum.case_cong)
  have a: "embed_answers (set_module h (dropout self) m) self i a k =
       embed_answers h self i a k" for i a k
    unfolding embed_answers_def using d(6,7)
    by (simp add: get_bert_set_module_other call_linear_set_module_other cong: sum.case_cong)
  have "forward (set_module h (dropout self) m) self input_ids_query attention_mask_query
         input_ids_doc attention_mask_doc c =
       forward h self input_ids_query attention_mask_query input_ids_doc attention_mask_doc c"
    unfolding forward_def by (simp only: q a)
  with q a show ?thesis by simp
qed

theorem C10_dropout_unused_witness:
  "embed_questions
     (set_module (snd (RetriBertModel_init (toy_config False) toy_initial))
        (dropout (fst (RetriBertModel_init (toy_config False) toy_initial))) (Dropout 0))
     (fst (RetriBertModel_init (toy_config False) toy_initial)) [[1, 2]] (Some [[1, 1]]) (- 1) =
   embed_questions (snd (RetriBertModel_init (toy_config False) toy_initial))
     (fst (RetriBertModel_init (toy_config False) toy_initial)) [[1, 2]] (Some [[1, 1]]) (- 1) \<and>
   forward
     (set_module (snd (RetriBertModel_init (toy_config False) toy_initial))
        (dropout (fst (RetriBertModel_init (toy_config False) toy_initial))) (Dropout 0))
     (fst (RetriBertModel_init (toy_config False) toy_initial))
     [[1, 2]] (Some [[1, 1]]) [[3, 4]] (Some [[1, 1]]) (- 1) =
   forward (snd (RetriBertModel_init (toy_config False) toy_initial))
     (fst (RetriBertModel_init (toy_config False) toy_initial))
     [[1, 2]] (Some [[1, 1]]) [[3, 4]] (Some [[1, 1]]) (- 1)"
  using C10_dropout_unused [OF toy_init_eq, of False "Dropout 0" "[[1, 2]]" "Some [[1, 1]]" "- 1"
      "[[1, 2]]" "Some [[1, 1]]" "[[3, 4]]" "Some [[1, 1]]"]
  by simp

end
